theory Spec2Isabelle
  imports Complex_Main "HOL-Library.Char_ord" "HOL-Library.List_Lexorder"
    "HOL-Library.Product_Lexorder" "HOL-Library.Multiset"
begin

section \<open>Data model of the dashboard script\<close>

text \<open>
  The script \<open>hello.py\<close> keeps one pandas data frame \<open>df\<close>. A column that may hold
  NaN / NaT is a list of options: \<open>None\<close> is the missing value. Numbers are modelled as
  reals (the float64 rounding of pandas is not part of the model). A timestamp is the
  number of nanoseconds since the epoch, as in \<open>datetime64[ns]\<close>.
\<close>

type_synonym timestamp = int

text \<open>A row as \<open>get_df\<close> delivers it; \<open>'c\<close> is the type of an uncleaned cell.\<close>

record 'c raw_job =
  raw_job_title :: "string option"
  raw_company_name :: "string option"
  raw_company_location :: "string option"
  raw_experience_level :: "string option"
  raw_industry :: "string option"
  raw_required_skills :: "string option"
  raw_salary_usd :: 'c
  raw_posting_date :: 'c
  raw_application_deadline :: 'c

text \<open>A row of \<open>df\<close> after the clean-up of lines 15-19.\<close>

record job =
  job_title :: "string option"
  company_name :: "string option"
  company_location :: "string option"
  experience_level :: "string option"
  industry :: "string option"
  required_skills :: "string option"
  salary_usd :: "real option"
  posting_date :: "timestamp option"
  application_deadline :: "timestamp option"
  posting_year :: "int option"
  posting_month :: "int option"

text \<open>
  The element-wise parsers and date accessors of pandas are parameters of the model:
  \<open>to_numeric\<close> and \<open>to_datetime\<close> give \<open>None\<close> where pandas cannot parse the cell;
  a date outside the range of \<open>datetime64[ns]\<close> is one that does not parse.
\<close>

record 'c pandas =
  to_numeric :: "'c \<Rightarrow> real option"
  to_datetime :: "'c \<Rightarrow> timestamp option"
  dt_year :: "timestamp \<Rightarrow> int"
  dt_month :: "timestamp \<Rightarrow> int"

text \<open>
  The data frame: its rows, and the column \<open>deadline_days\<close>, which does not exist
  until line 187 assigns it.
\<close>

record frame =
  rows :: "job list"
  deadline_days :: "int option list option"

subsection \<open>Lines 15-19: clean-up\<close>

text \<open>
  \<open>errors='coerce'\<close>: a cell that does not parse becomes NaN / NaT; nothing is raised.
  \<open>.dt.year\<close> and \<open>.dt.month\<close> of NaT are NaN.
\<close>

definition clean_row :: "'c pandas \<Rightarrow> 'c raw_job \<Rightarrow> job" where
  "clean_row pd r =
     (let pdate = to_datetime pd (raw_posting_date r) in
      \<lparr> job_title = raw_job_title r,
        company_name = raw_company_name r,
        company_location = raw_company_location r,
        experience_level = raw_experience_level r,
        industry = raw_industry r,
        required_skills = raw_required_skills r,
        salary_usd = to_numeric pd (raw_salary_usd r),
        posting_date = pdate,
        application_deadline = to_datetime pd (raw_application_deadline r),
        posting_year = map_option (dt_year pd) pdate,
        posting_month = map_option (dt_month pd) pdate \<rparr>)"

definition ingest :: "'c pandas \<Rightarrow> 'c raw_job list \<Rightarrow> frame" where
  "ingest pd raw = \<lparr> rows = map (clean_row pd) raw, deadline_days = None \<rparr>"

subsection \<open>Reductions that skip missing values\<close>

definition dropna :: "'a option list \<Rightarrow> 'a list" where
  "dropna xs = [x. Some x \<leftarrow> xs]"

text \<open>\<open>Series.max()\<close>: NaN when no value is present.\<close>

definition series_max :: "real option list \<Rightarrow> real option" where
  "series_max xs = (case dropna xs of [] \<Rightarrow> None | v # vs \<Rightarrow> Some (fold max vs v))"

definition series_min :: "real option list \<Rightarrow> real option" where
  "series_min xs = (case dropna xs of [] \<Rightarrow> None | v # vs \<Rightarrow> Some (fold min vs v))"

text \<open>\<open>Series.mean()\<close> and the group-wise mean: NaN when no value is present.\<close>

definition series_mean :: "real option list \<Rightarrow> real option" where
  "series_mean xs =
     (let vs = dropna xs in if vs = [] then None else Some (sum_list vs / real (length vs)))"

subsection \<open>Lines 27-36: the salary threshold section\<close>

text \<open>A comparison with NaN is false.\<close>

definition ge_nan :: "real option \<Rightarrow> real \<Rightarrow> bool" where
  "ge_nan x t = (case x of None \<Rightarrow> False | Some s \<Rightarrow> t \<le> s)"

definition gt_nan :: "real \<Rightarrow> real option \<Rightarrow> bool" where
  "gt_nan t x = (case x of None \<Rightarrow> False | Some m \<Rightarrow> m < t)"

definition filtered_df :: "real \<Rightarrow> job list \<Rightarrow> job list" where
  "filtered_df salary_min df = filter (\<lambda>r. ge_nan (salary_usd r) salary_min) df"

datatype threshold_view =
    Warn_above_all_listings
  | Warn_no_jobs_found
  | Salary_histogram "job list"

definition threshold_section :: "real \<Rightarrow> job list \<Rightarrow> threshold_view" where
  "threshold_section salary_min df =
     (if gt_nan salary_min (series_max (map salary_usd df)) then Warn_above_all_listings
      else if filtered_df salary_min df = [] then Warn_no_jobs_found
      else Salary_histogram (filtered_df salary_min df))"

subsection \<open>Frequency rankings\<close>

text \<open>
  Counting in order of first appearance: \<open>collections.Counter(xs)\<close> is a dict, which
  keeps its keys in insertion order, and the hash table behind \<open>value_counts\<close> lists its
  keys in order of first appearance too.
\<close>

fun bump :: "'a \<Rightarrow> ('a \<times> nat) list \<Rightarrow> ('a \<times> nat) list" where
  "bump a [] = [(a, 1)]"
| "bump a ((k, c) # kcs) = (if k = a then (k, Suc c) # kcs else (k, c) # bump a kcs)"

definition counter :: "'a list \<Rightarrow> ('a \<times> nat) list" where
  "counter xs = fold bump xs []"

text \<open>
  \<open>Counter.most_common(n)\<close> is \<open>heapq.nlargest(n, items, key=count)\<close>, which Python
  documents as \<open>sorted(items, key=count, reverse=True)[:n]\<close>: a stable sort, so items with
  equal counts keep their order.
\<close>

definition sorted_by_count_desc :: "('a \<times> nat) list \<Rightarrow> ('a \<times> nat) list" where
  "sorted_by_count_desc items = sort_key (\<lambda>p. - int (snd p)) items"

definition most_common :: "nat \<Rightarrow> ('a \<times> nat) list \<Rightarrow> ('a \<times> nat) list" where
  "most_common n items = take n (sorted_by_count_desc items)"

text \<open>
  \<open>Series.value_counts()\<close> drops NaN, counts, and then calls
  \<open>sort_values(ascending=False)\<close> with the default \<open>kind='quicksort'\<close>, which pandas
  documents as not stable and which numpy implements in more than one way. The sort is
  therefore a parameter \<open>srt\<close> of the model.
\<close>

definition value_counts ::
  "(('a \<times> nat) list \<Rightarrow> ('a \<times> nat) list) \<Rightarrow> 'a option list \<Rightarrow> ('a \<times> nat) list" where
  "value_counts srt col = srt (counter (dropna col))"

text \<open>\<open>df[col].value_counts().head(n).index.tolist()\<close> (lines 40, 41, 151).\<close>

definition top_values ::
  "(('a \<times> nat) list \<Rightarrow> ('a \<times> nat) list) \<Rightarrow> nat \<Rightarrow> 'a option list \<Rightarrow> 'a list" where
  "top_values srt n col = map fst (take n (value_counts srt col))"

text \<open>\<open>Series.isin(values)\<close>: NaN is in no list of present values.\<close>

definition isin :: "'a option \<Rightarrow> 'a list \<Rightarrow> bool" where
  "isin x vs = (case x of None \<Rightarrow> False | Some v \<Rightarrow> v \<in> set vs)"

subsection \<open>Grouping\<close>

text \<open>
  \<open>df.groupby(keys)\<close> with its defaults \<open>sort=True, dropna=True\<close>: rows with a missing
  key are in no group, and the groups come in the order of their keys. A list of key
  columns groups by the tuple of their values.
\<close>

definition groupby :: "('r \<Rightarrow> 'k option) \<Rightarrow> 'r list \<Rightarrow> ('k::linorder \<times> 'r list) list" where
  "groupby key df =
     map (\<lambda>k. (k, filter (\<lambda>r. key r = Some k) df)) (sort (remdups (dropna (map key df))))"

definition key2 :: "('r \<Rightarrow> 'a option) \<Rightarrow> ('r \<Rightarrow> 'b option) \<Rightarrow> 'r \<Rightarrow> ('a \<times> 'b) option" where
  "key2 f g r =
     (case f r of None \<Rightarrow> None
      | Some a \<Rightarrow> (case g r of None \<Rightarrow> None | Some b \<Rightarrow> Some (a, b)))"

text \<open>\<open>df.groupby(keys)[value].mean().reset_index()\<close>: one record per group.\<close>

definition groupby_mean ::
  "('r \<Rightarrow> 'k option) \<Rightarrow> ('r \<Rightarrow> real option) \<Rightarrow> 'r list \<Rightarrow> ('k::linorder \<times> real option) list"
  where
  "groupby_mean key val df = map (\<lambda>(k, g). (k, series_mean (map val g))) (groupby key df)"

text \<open>\<open>df.groupby(key).size().reset_index(name="count")\<close>.\<close>

definition groupby_size :: "('r \<Rightarrow> 'k option) \<Rightarrow> 'r list \<Rightarrow> ('k::linorder \<times> nat) list" where
  "groupby_size key df = map (\<lambda>(k, g). (k, length g)) (groupby key df)"

text \<open>Lines 71-72.\<close>

definition time_series :: "job list \<Rightarrow> ((int \<times> string) \<times> real option) list" where
  "time_series df =
     groupby_mean (key2 posting_year experience_level) salary_usd
       (filter (\<lambda>r. posting_year r \<noteq> None) df)"

text \<open>Lines 144-145.\<close>

definition exp_country :: "string list \<Rightarrow> job list \<Rightarrow> ((string \<times> string) \<times> real option) list"
  where
  "exp_country top_locations df =
     groupby_mean (key2 company_location experience_level) salary_usd
       (filter (\<lambda>r. isin (company_location r) top_locations) df)"

text \<open>Line 137.\<close>

definition monthly :: "job list \<Rightarrow> (int \<times> nat) list" where
  "monthly df = groupby_size posting_month df"

subsection \<open>Line 45: the pivot table\<close>

text \<open>\<open>numpy.round(x, 2)\<close>: \<open>rint(x * 100) / 100\<close>, halves to the even neighbour.\<close>

definition rint :: "real \<Rightarrow> int" where
  "rint x =
     (let f = \<lfloor>x\<rfloor>; d = x - of_int f in
      if d < 1 / 2 then f else if 1 / 2 < d then f + 1 else if even f then f else f + 1)"

definition round2 :: "real \<Rightarrow> real" where
  "round2 x = of_int (rint (x * 100)) / 100"

record pivot =
  pv_index :: "string list"
  pv_columns :: "string list"
  pv_values :: "real option list list"

text \<open>
  \<open>pivot_table(index=..., columns=..., values=..., aggfunc="mean")\<close> with its default
  \<open>dropna=True\<close>: the group means, without the groups whose mean is NaN, unstacked into
  a table over the sorted row and column keys that remain; a cell without a group is NaN.
\<close>

definition pivot_table_mean ::
  "('r \<Rightarrow> string option) \<Rightarrow> ('r \<Rightarrow> string option) \<Rightarrow> ('r \<Rightarrow> real option) \<Rightarrow> 'r list \<Rightarrow> pivot"
  where
  "pivot_table_mean idx col val df =
     (let agged = [(k, m). (k, Some m) \<leftarrow> groupby_mean (key2 idx col) val df];
          is = sort (remdups (map (fst \<circ> fst) agged));
          cs = sort (remdups (map (snd \<circ> fst) agged))
      in \<lparr> pv_index = is, pv_columns = cs,
           pv_values = map (\<lambda>i. map (\<lambda>c. map_of agged (i, c)) cs) is \<rparr>)"

definition pivot_round2 :: "pivot \<Rightarrow> pivot" where
  "pivot_round2 t = t \<lparr> pv_values := map (map (map_option round2)) (pv_values t) \<rparr>"

text \<open>Line 42.\<close>

definition top_data :: "string list \<Rightarrow> string list \<Rightarrow> job list \<Rightarrow> job list" where
  "top_data top_titles top_locations df =
     filter (\<lambda>r. isin (job_title r) top_titles \<and> isin (company_location r) top_locations) df"

definition heatmap_df :: "job list \<Rightarrow> pivot" where
  "heatmap_df td = pivot_round2 (pivot_table_mean job_title company_location salary_usd td)"

subsection \<open>Lines 87-100: skills\<close>

text \<open>
  Python strings are modelled with the characters of code points below 256; these are the
  ones among them for which \<open>str.isspace\<close> holds, which is also what \<open>\s\<close> matches and
  what \<open>str.strip()\<close> removes.
\<close>

definition isspace :: "char \<Rightarrow> bool" where
  "isspace c \<longleftrightarrow> (of_char c :: nat) \<in> {9, 10, 11, 12, 13, 28, 29, 30, 31, 32, 133, 160}"

definition strip :: "string \<Rightarrow> string" where
  "strip s = rev (dropWhile isspace (rev (dropWhile isspace s)))"

text \<open>\<open>x.split(",")\<close>: the pieces between the commas, empty pieces included.\<close>

function str_split :: "string \<Rightarrow> string list" where
  "str_split s =
     (case dropWhile (\<lambda>c. c \<noteq> CHR '','') s of
        [] \<Rightarrow> [s]
      | _ # rest \<Rightarrow> takeWhile (\<lambda>c. c \<noteq> CHR '','') s # str_split rest)"
  by pat_completeness auto
termination
proof (relation "measure length")
  fix s :: string and c rest
  assume "dropWhile (\<lambda>c. c \<noteq> CHR '','') s = c # rest"
  then have "Suc (length rest) = length (dropWhile (\<lambda>c. c \<noteq> CHR '','') s)" by simp
  also have "\<dots> \<le> length s" by (rule length_dropWhile_le)
  finally show "(rest, s) \<in> measure length" by simp
qed simp

text \<open>
  \<open>re.split(r',\s*', x)\<close>: each separator is a comma with all the whitespace that
  follows it.
\<close>

function re_split :: "string \<Rightarrow> string list" where
  "re_split s =
     (case dropWhile (\<lambda>c. c \<noteq> CHR '','') s of
        [] \<Rightarrow> [s]
      | _ # rest \<Rightarrow> takeWhile (\<lambda>c. c \<noteq> CHR '','') s # re_split (dropWhile isspace rest))"
  by pat_completeness auto
termination
proof (relation "measure length")
  fix s :: string and c rest
  assume "dropWhile (\<lambda>c. c \<noteq> CHR '','') s = c # rest"
  then have "Suc (length rest) = length (dropWhile (\<lambda>c. c \<noteq> CHR '','') s)" by simp
  also have "\<dots> \<le> length s" by (rule length_dropWhile_le)
  finally have "length rest < length s" by simp
  moreover have "length (dropWhile isspace rest) \<le> length rest" by (rule length_dropWhile_le)
  ultimately show "(dropWhile isspace rest, s) \<in> measure length" by simp
qed simp

declare str_split.simps [simp del] re_split.simps [simp del]

text \<open>Lines 87-88: the tokens of one cell, and of the whole column.\<close>

definition skill_tokens :: "string \<Rightarrow> string list" where
  "skill_tokens x = [strip skill. skill \<leftarrow> re_split x, strip skill \<noteq> []]"

definition all_skills :: "job list \<Rightarrow> string list" where
  "all_skills df = concat (map skill_tokens (dropna (map required_skills df)))"

text \<open>Line 89.\<close>

definition skill_counts :: "job list \<Rightarrow> (string \<times> nat) list" where
  "skill_counts df = most_common 15 (counter (all_skills df))"

text \<open>
  Lines 95-97: the rows with both a salary and a skills cell, the cell replaced by the
  list of its stripped pieces, one row per piece.
\<close>

definition explode_tokens :: "string \<Rightarrow> string list" where
  "explode_tokens x = [strip s. s \<leftarrow> str_split x]"

definition exploded_skills :: "job list \<Rightarrow> (real \<times> string) list" where
  "exploded_skills df =
     concat (map (\<lambda>r. case (salary_usd r, required_skills r) of
                        (Some v, Some x) \<Rightarrow> map (\<lambda>t. (v, t)) (explode_tokens x)
                      | _ \<Rightarrow> []) df)"

text \<open>
  Lines 98-100, up to the final \<open>sort_values\<close>, which only reorders the records.
\<close>

definition top_10_skills :: "(string \<times> nat) list \<Rightarrow> string list" where
  "top_10_skills sc = take 10 (map fst sc)"

definition top_skill_rows :: "(string \<times> nat) list \<Rightarrow> job list \<Rightarrow> (real \<times> string) list" where
  "top_skill_rows sc df = filter (\<lambda>(v, t). t \<in> set (top_10_skills sc)) (exploded_skills df)"

definition skill_salary :: "(string \<times> nat) list \<Rightarrow> job list \<Rightarrow> (string \<times> real option) list"
  where
  "skill_salary sc df = groupby_mean (\<lambda>(v, t). Some t) (\<lambda>(v, t). Some v) (top_skill_rows sc df)"

subsection \<open>Lines 187-188: deadlines\<close>

datatype py_error = KeyError | IndexError | OverflowError

text \<open>
  \<open>df["application_deadline"] - df["posting_date"]\<close>: the subtraction of two
  \<open>datetime64[ns]\<close> columns, element by element on their int64 nanosecond counts. An
  element is NaT when either date is NaT; pandas checks the subtraction and raises
  \<open>OverflowError\<close> when a difference does not fit int64; the least int64 is the
  representation of NaT.
\<close>

definition sub_datetime :: "timestamp option \<Rightarrow> timestamp option \<Rightarrow> py_error + int option" where
  "sub_datetime a p =
     (case a of None \<Rightarrow> Inr None
      | Some ta \<Rightarrow>
          (case p of None \<Rightarrow> Inr None
           | Some tp \<Rightarrow>
               (let d = ta - tp in
                if d < - (2 ^ 63) \<or> 2 ^ 63 \<le> d then Inl OverflowError
                else if d = - (2 ^ 63) then Inr None
                else Inr (Some d))))"

definition deadline_span :: "job \<Rightarrow> py_error + int option" where
  "deadline_span r = sub_datetime (application_deadline r) (posting_date r)"

text \<open>The whole column: the subtraction raises when one of its elements does.\<close>

fun sub_datetime_columns :: "job list \<Rightarrow> py_error + int option list" where
  "sub_datetime_columns [] = Inr []"
| "sub_datetime_columns (r # rs) =
     (case deadline_span r of
        Inl e \<Rightarrow> Inl e
      | Inr d \<Rightarrow> (case sub_datetime_columns rs of Inl e \<Rightarrow> Inl e | Inr ds \<Rightarrow> Inr (d # ds)))"

text \<open>\<open>.dt.days\<close>: the whole days of a span, rounded down; NaN for NaT.\<close>

definition dt_days :: "int option \<Rightarrow> int option" where
  "dt_days d = map_option (\<lambda>ns. ns div 86400000000000) d"

text \<open>
  Line 187. When the subtraction raises, the assignment does not take place and the
  script ends there.
\<close>

definition assign_deadline_days :: "frame \<Rightarrow> py_error + frame" where
  "assign_deadline_days df =
     (case sub_datetime_columns (rows df) of
        Inl e \<Rightarrow> Inl e
      | Inr ds \<Rightarrow> Inr (df \<lparr> deadline_days := Some (map dt_days ds) \<rparr>))"

text \<open>The values drawn by the histogram of line 188; the column must exist.\<close>

definition fig_deadline :: "frame \<Rightarrow> py_error + int list" where
  "fig_deadline df = (case deadline_days df of None \<Rightarrow> Inl KeyError | Some col \<Rightarrow> Inr (dropna col))"

subsection \<open>Line 199: summary statistics\<close>

record summary =
  s_count :: real
  s_mean :: "real option"
  s_std :: "real option"
  s_min :: "real option"
  s_q25 :: "real option"
  s_q50 :: "real option"
  s_q75 :: "real option"
  s_max :: "real option"

text \<open>The sample standard deviation (\<open>ddof=1\<close>): NaN for fewer than two values.\<close>

definition series_std :: "real option list \<Rightarrow> real option" where
  "series_std xs =
     (let vs = dropna xs; n = length vs in
      if n \<le> 1 then None
      else let m = sum_list vs / real n in
           Some (sqrt (sum_list (map (\<lambda>x. (x - m)\<^sup>2) vs) / real (n - 1))))"

text \<open>The quantile by linear interpolation between the two nearest order statistics.\<close>

definition quantile :: "real \<Rightarrow> real option list \<Rightarrow> real option" where
  "quantile q xs =
     (let s = sort (dropna xs) in
      if s = [] then None
      else let h = real (length s - 1) * q; lo = nat \<lfloor>h\<rfloor>; hi = min (lo + 1) (length s - 1)
           in Some (s ! lo + (s ! hi - s ! lo) * (h - real lo)))"

definition describe :: "real option list \<Rightarrow> summary" where
  "describe xs =
     \<lparr> s_count = real (length (dropna xs)), s_mean = series_mean xs, s_std = series_std xs,
       s_min = series_min xs, s_q25 = quantile (1 / 4) xs, s_q50 = quantile (1 / 2) xs,
       s_q75 = quantile (3 / 4) xs, s_max = series_max xs \<rparr>"

definition summary_round2 :: "summary \<Rightarrow> summary" where
  "summary_round2 t =
     \<lparr> s_count = round2 (s_count t), s_mean = map_option round2 (s_mean t),
       s_std = map_option round2 (s_std t), s_min = map_option round2 (s_min t),
       s_q25 = map_option round2 (s_q25 t), s_q50 = map_option round2 (s_q50 t),
       s_q75 = map_option round2 (s_q75 t), s_max = map_option round2 (s_max t) \<rparr>"

definition stats :: "job list \<Rightarrow> summary" where
  "stats df = summary_round2 (describe (map salary_usd df))"

subsection \<open>The run of the script\<close>

text \<open>
  Line 46: \<open>create_annotated_heatmap\<close> raises \<open>IndexError\<close> when the table it is
  given has no rows.
\<close>

definition create_annotated_heatmap :: "pivot \<Rightarrow> py_error + pivot" where
  "create_annotated_heatmap t = (if pv_values t = [] then Inl IndexError else Inr t)"

text \<open>
  What the modelled sections hand to the display. The sections that only draw a column
  of \<open>df\<close> as it is are left out.
\<close>

datatype view =
    Threshold threshold_view
  | Heatmap pivot
  | Time_series "((int \<times> string) \<times> real option) list"
  | Skill_counts "(string \<times> nat) list"
  | Skill_salary "(string \<times> real option) list"
  | Monthly "(int \<times> nat) list"
  | Exp_country "((string \<times> string) \<times> real option) list"
  | Deadline_histogram "int list"
  | Stats summary

text \<open>
  How a run ends: the exception that ended it, if one did, the frame \<open>df\<close> it leaves,
  and what it has shown, in the order of the script.
\<close>

record outcome =
  raised :: "py_error option"
  left_df :: frame
  shown :: "view list"

text \<open>
  The script as a function of what it reads: the data set and the slider. \<open>df\<close> is the
  one mutable variable; the only statement after the clean-up that assigns to it is line
  187. An exception ends the run: nothing after the line that raises is executed.
\<close>

definition dashboard ::
  "'c pandas \<Rightarrow> ((string \<times> nat) list \<Rightarrow> (string \<times> nat) list) \<Rightarrow> 'c raw_job list \<Rightarrow> real
     \<Rightarrow> outcome" where
  "dashboard pd srt raw salary_min =
     (let df = ingest pd raw;
          first = [Threshold (threshold_section salary_min (rows df))];
          top_titles = top_values srt 10 (map job_title (rows df));
          top_locations = top_values srt 10 (map company_location (rows df))
      in case create_annotated_heatmap
                (heatmap_df (top_data top_titles top_locations (rows df))) of
           Inl e \<Rightarrow> \<lparr> raised = Some e, left_df = df, shown = first \<rparr>
         | Inr heat \<Rightarrow>
             (let sc = skill_counts (rows df);
                  middle = first @
                    [Heatmap heat, Time_series (time_series (rows df)), Skill_counts sc,
                     Skill_salary (skill_salary sc (rows df)), Monthly (monthly (rows df)),
                     Exp_country (exp_country top_locations (rows df))]
              in case assign_deadline_days df of
                   Inl e \<Rightarrow> \<lparr> raised = Some e, left_df = df, shown = middle \<rparr>
                 | Inr df' \<Rightarrow>
                     (case fig_deadline df' of
                        Inl e \<Rightarrow> \<lparr> raised = Some e, left_df = df', shown = middle \<rparr>
                      | Inr days \<Rightarrow>
                          \<lparr> raised = None, left_df = df',
                            shown = middle @
                              [Deadline_histogram days, Stats (stats (rows df'))] \<rparr>)))"

subsection \<open>Example rows\<close>

text \<open>
  Cleaned rows for the examples: a posting of January 2024 with a title, an experience
  level and a salary, and one with a skills cell.
\<close>

definition posting :: "string \<Rightarrow> string \<Rightarrow> real option \<Rightarrow> job" where
  "posting title level salary =
     \<lparr> job_title = Some title, company_name = None, company_location = None,
       experience_level = Some level, industry = None, required_skills = None,
       salary_usd = salary, posting_date = None, application_deadline = None,
       posting_year = Some 2024, posting_month = Some 1 \<rparr>"

definition skilled :: "real option \<Rightarrow> string \<Rightarrow> job" where
  "skilled salary skills = (posting [] [] salary) \<lparr> required_skills := Some skills \<rparr>"

text \<open>
  An instance of the pandas parameters for the examples: a cell is already a number or a
  timestamp, or it is text that does not parse; year and month are those of the
  proleptic Gregorian calendar.
\<close>

datatype cell = Number real | Date timestamp | Text string

definition civil :: "timestamp \<Rightarrow> int \<times> int" where
  "civil t =
     (let z = t div 86400000000000 + 719468;
          era = z div 146097;
          doe = z - era * 146097;
          yoe = (doe - doe div 1460 + doe div 36524 - doe div 146096) div 365;
          doy = doe - (365 * yoe + yoe div 4 - yoe div 100);
          mp = (5 * doy + 2) div 153;
          m = (if mp < 10 then mp + 3 else mp - 9)
      in (if m \<le> 2 then yoe + era * 400 + 1 else yoe + era * 400, m))"

definition example_pandas :: "cell pandas" where
  "example_pandas =
     \<lparr> to_numeric = (\<lambda>c. case c of Number x \<Rightarrow> Some x | _ \<Rightarrow> None),
       to_datetime = (\<lambda>c. case c of Date t \<Rightarrow> Some t | _ \<Rightarrow> None),
       dt_year = (\<lambda>t. fst (civil t)), dt_month = (\<lambda>t. snd (civil t)) \<rparr>"

definition raw_posting :: "string \<Rightarrow> cell \<Rightarrow> cell \<Rightarrow> cell \<Rightarrow> cell raw_job" where
  "raw_posting title salary posted deadline =
     \<lparr> raw_job_title = Some title, raw_company_name = None, raw_company_location = None,
       raw_experience_level = None, raw_industry = None, raw_required_skills = None,
       raw_salary_usd = salary, raw_posting_date = posted, raw_application_deadline = deadline \<rparr>"

definition example_raw :: "cell raw_job list" where
  "example_raw =
     [raw_posting ''ML Engineer'' (Text ''n/a'')
        (Date 1710460800000000000) (Date 1713139200000000000),
      raw_posting ''ML Engineer'' (Number 100000) (Text ''soon'') (Date 1713139200000000000)]"

text \<open>
  A data set on which the script runs to its end: four listings of one country, one
  with a salary that does not parse and one with a posting date that does not parse.
  The dates are 2024-03-15 and 2024-04-15.
\<close>

definition raw_listing ::
  "string \<Rightarrow> string \<Rightarrow> string \<Rightarrow> cell \<Rightarrow> cell \<Rightarrow> cell \<Rightarrow> cell raw_job" where
  "raw_listing title level skills salary posted deadline =
     \<lparr> raw_job_title = Some title, raw_company_name = Some ''TechCorp'',
       raw_company_location = Some ''Germany'', raw_experience_level = Some level,
       raw_industry = Some ''Technology'', raw_required_skills = Some skills,
       raw_salary_usd = salary, raw_posting_date = posted, raw_application_deadline = deadline \<rparr>"

definition example_listings :: "cell raw_job list" where
  "example_listings =
     [raw_listing ''ML Engineer'' ''SE'' ''Python, SQL'' (Number 100000)
        (Date 1710460800000000000) (Date 1713139200000000000),
      raw_listing ''ML Engineer'' ''SE'' ''Python'' (Number 120000)
        (Date 1710460800000000000) (Date 1713139200000000000),
      raw_listing ''ML Engineer'' ''EN'' ''SQL'' (Text ''n/a'')
        (Date 1710460800000000000) (Date 1713139200000000000),
      raw_listing ''Data Scientist'' ''EN'' ''Python'' (Number 90000)
        (Text ''soon'') (Date 1713139200000000000)]"


section \<open>Properties\<close>

lemma dropna_Nil [simp]: "dropna [] = []"
  by (simp add: dropna_def)

lemma dropna_Cons [simp]:
  "dropna (x # xs) = (case x of None \<Rightarrow> dropna xs | Some v \<Rightarrow> v # dropna xs)"
  by (cases x) (simp_all add: dropna_def)

lemma set_dropna: "set (dropna xs) = {v. Some v \<in> set xs}"
  by (induction xs) (auto split: option.splits)

lemma fold_max_init: "v \<le> fold max vs (v::real)"
proof (induction vs arbitrary: v)
  case Nil
  then show ?case by simp
next
  case (Cons a vs)
  have "max a v \<le> fold max vs (max a v)" by (rule Cons.IH)
  then show ?case by simp
qed

lemma fold_max_ge: "x \<in> set vs \<Longrightarrow> x \<le> fold max vs (v::real)"
proof (induction vs arbitrary: v)
  case Nil
  then show ?case by simp
next
  case (Cons a vs)
  show ?case
  proof (cases "x = a")
    case True
    have "max a v \<le> fold max vs (max a v)" by (rule fold_max_init)
    with True show ?thesis by simp
  next
    case False
    with Cons.prems have "x \<in> set vs" by simp
    then show ?thesis using Cons.IH by simp
  qed
qed

lemma fold_max_mem: "fold max vs (v::real) \<in> set (v # vs)"
proof (induction vs arbitrary: v)
  case Nil
  then show ?case by simp
next
  case (Cons a vs)
  from Cons.IH [of "max a v"] show ?case by (auto simp: max_def split: if_splits)
qed

lemma series_max_ge:
  assumes "series_max xs = Some m" and "Some s \<in> set xs"
  shows "s \<le> m"
proof -
  from assms(2) have mem: "s \<in> set (dropna xs)" by (simp add: set_dropna)
  then obtain v vs where vs: "dropna xs = v # vs" by (cases "dropna xs") auto
  with assms(1) have m: "m = fold max vs v" by (simp add: series_max_def)
  from mem vs have "s = v \<or> s \<in> set vs" by simp
  then show ?thesis using fold_max_init [of v vs] fold_max_ge [of s vs v] m by auto
qed

lemma series_max_mem:
  assumes "series_max xs = Some m"
  shows "Some m \<in> set xs"
proof -
  from assms obtain v vs where vs: "dropna xs = v # vs" and m: "m = fold max vs v"
    by (auto simp: series_max_def split: list.splits)
  have "m \<in> set (dropna xs)" using fold_max_mem [of vs v] vs m by simp
  then show ?thesis by (simp add: set_dropna)
qed

lemma series_max_None: "series_max xs = None \<longleftrightarrow> (\<forall>x\<in>set xs. x = None)"
proof -
  have "dropna xs = [] \<longleftrightarrow> (\<forall>x\<in>set xs. x = None)"
    by (induction xs) (auto split: option.splits)
  then show ?thesis by (auto simp: series_max_def split: list.splits)
qed

lemma filtered_df_mem:
  "r \<in> set (filtered_df t df) \<longleftrightarrow> r \<in> set df \<and> (\<exists>s. salary_usd r = Some s \<and> t \<le> s)"
  by (auto simp: filtered_df_def ge_nan_def split: option.splits)

lemma filtered_df_empty_above_max:
  assumes "series_max (map salary_usd df) = Some m" and "m < t"
  shows "filtered_df t df = []"
proof (rule ccontr)
  assume "filtered_df t df \<noteq> []"
  then obtain r where "r \<in> set (filtered_df t df)" by (cases "filtered_df t df") auto
  then obtain s where r: "r \<in> set df" and s: "salary_usd r = Some s" and ts: "t \<le> s"
    by (auto simp: filtered_df_mem)
  from r s have "Some s \<in> set (map salary_usd df)" by force
  with assms(1) have "s \<le> m" by (rule series_max_ge)
  with ts assms(2) show False by simp
qed

subsection \<open>The salary threshold\<close>

text \<open>
  C2. The threshold filter keeps exactly the rows whose salary is present and at least the
  threshold, in their order. Whenever the threshold is above the largest salary present,
  or the filtered frame is empty, the filtered frame is empty and the section shows one of
  its two warnings; a histogram is never drawn from an empty frame. Every branch of the
  section returns a value: no input makes it fail.
\<close>

theorem filter_by_salary_floor_no_data:
  "filtered_df t df = filter (\<lambda>r. \<exists>s. salary_usd r = Some s \<and> t \<le> s) df
   \<and> (((\<exists>m. series_max (map salary_usd df) = Some m \<and> m < t) \<or> filtered_df t df = [])
        \<longrightarrow> filtered_df t df = []
            \<and> threshold_section t df \<in> {Warn_above_all_listings, Warn_no_jobs_found})
   \<and> threshold_section t df \<noteq> Salary_histogram []"
proof (intro conjI impI)
  show "filtered_df t df = filter (\<lambda>r. \<exists>s. salary_usd r = Some s \<and> t \<le> s) df"
    unfolding filtered_df_def
    by (rule filter_cong) (auto simp: ge_nan_def split: option.splits)
next
  assume "(\<exists>m. series_max (map salary_usd df) = Some m \<and> m < t) \<or> filtered_df t df = []"
  then show e: "filtered_df t df = []"
    using filtered_df_empty_above_max by blast
  then show "threshold_section t df \<in> {Warn_above_all_listings, Warn_no_jobs_found}"
    by (simp add: threshold_section_def)
next
  show "threshold_section t df \<noteq> Salary_histogram []"
    by (simp add: threshold_section_def)
qed

theorem filter_by_salary_floor_no_data_witness:
  "(\<exists>m. series_max (map salary_usd [posting ''ML Engineer'' ''SE'' (Some 40000)]) = Some m
        \<and> m < 50000)
   \<and> filtered_df 50000 [posting ''ML Engineer'' ''SE'' (Some 40000)] = []
   \<and> threshold_section 50000 [posting ''ML Engineer'' ''SE'' (Some 40000)]
       = Warn_above_all_listings"
  using filter_by_salary_floor_no_data [of 50000 "[posting ''ML Engineer'' ''SE'' (Some 40000)]"]
  by (simp add: threshold_section_def series_max_def gt_nan_def posting_def)

text \<open>
  C10. When every salary is missing, the filtered frame is empty for every threshold and
  the section takes the "no jobs found" branch, not the "above all listings" branch.
  When some salary is present and the threshold is at most the largest one, the filtered
  frame is not empty and the histogram of the filtered frame is drawn.
\<close>

theorem threshold_section_missing_salaries:
  "((\<forall>r\<in>set df. salary_usd r = None)
      \<longrightarrow> filtered_df t df = [] \<and> threshold_section t df = Warn_no_jobs_found)
   \<and> ((\<exists>m. series_max (map salary_usd df) = Some m \<and> t \<le> m)
      \<longrightarrow> filtered_df t df \<noteq> []
          \<and> threshold_section t df = Salary_histogram (filtered_df t df))"
proof (intro conjI impI)
  assume a: "\<forall>r\<in>set df. salary_usd r = None"
  then have mx: "series_max (map salary_usd df) = None" by (simp add: series_max_None)
  from a show e: "filtered_df t df = []" by (auto simp: filtered_df_def ge_nan_def)
  from mx e show "threshold_section t df = Warn_no_jobs_found"
    by (simp add: threshold_section_def gt_nan_def)
next
  assume "\<exists>m. series_max (map salary_usd df) = Some m \<and> t \<le> m"
  then obtain m where mx: "series_max (map salary_usd df) = Some m" and tm: "t \<le> m" by blast
  from mx have "Some m \<in> set (map salary_usd df)" by (rule series_max_mem)
  then obtain r where "r \<in> set df" "salary_usd r = Some m" by auto
  with tm have "r \<in> set (filtered_df t df)" by (simp add: filtered_df_mem)
  then show ne: "filtered_df t df \<noteq> []" by auto
  from mx tm ne show "threshold_section t df = Salary_histogram (filtered_df t df)"
    by (simp add: threshold_section_def gt_nan_def)
qed

theorem threshold_section_missing_salaries_witness:
  "salary_usd (posting ''ML Engineer'' ''SE'' None) = None
   \<and> filtered_df 0 [posting ''ML Engineer'' ''SE'' None] = []
   \<and> threshold_section 0 [posting ''ML Engineer'' ''SE'' None] = Warn_no_jobs_found
   \<and> (\<exists>m. series_max (map salary_usd [posting ''ML Engineer'' ''SE'' (Some 40000)]) = Some m
          \<and> 40000 \<le> m)
   \<and> threshold_section 40000 [posting ''ML Engineer'' ''SE'' (Some 40000)]
       = Salary_histogram [posting ''ML Engineer'' ''SE'' (Some 40000)]"
  using threshold_section_missing_salaries [of "[posting ''ML Engineer'' ''SE'' None]" 0]
    threshold_section_missing_salaries [of "[posting ''ML Engineer'' ''SE'' (Some 40000)]" 40000]
  by (simp add: threshold_section_def series_max_def gt_nan_def filtered_df_def ge_nan_def
      posting_def)

subsection \<open>Frequency rankings\<close>

lemma counter_snoc: "counter (xs @ [a]) = bump a (counter xs)"
  by (simp add: counter_def)

lemma map_fst_bump_old: "a \<in> fst ` set kcs \<Longrightarrow> map fst (bump a kcs) = map fst kcs"
proof (induction kcs)
  case Nil
  then show ?case by simp
next
  case (Cons p kcs)
  obtain k c where p: "p = (k, c)" by (cases p)
  show ?case
  proof (cases "k = a")
    case True
    with p show ?thesis by simp
  next
    case False
    with Cons.prems p have "a \<in> fst ` set kcs" by auto
    with Cons.IH False p show ?thesis by simp
  qed
qed

lemma map_fst_bump_new: "a \<notin> fst ` set kcs \<Longrightarrow> map fst (bump a kcs) = map fst kcs @ [a]"
  by (induction kcs) auto

lemma map_fst_bump:
  "map fst (bump a kcs) = (if a \<in> set (map fst kcs) then map fst kcs else map fst kcs @ [a])"
  by (simp add: map_fst_bump_old map_fst_bump_new)

lemma set_counter_keys: "set (map fst (counter xs)) = set xs"
proof (induction xs rule: rev_induct)
  case Nil
  then show ?case by (simp add: counter_def)
next
  case (snoc a xs)
  then show ?case by (auto simp: counter_snoc map_fst_bump simp del: set_map)
qed

subsection \<open>Skill tokens\<close>

lemma comma_not_space: "\<not> isspace CHR '',''"
  by (simp add: isspace_def)

lemma dropWhile_comma_space:
  "dropWhile (\<lambda>c. c \<noteq> CHR '','') (dropWhile isspace s) = dropWhile (\<lambda>c. c \<noteq> CHR '','') s"
  using comma_not_space by (induction s) auto

lemma takeWhile_comma_space:
  "takeWhile (\<lambda>c. c \<noteq> CHR '','') (dropWhile isspace s)
     = dropWhile isspace (takeWhile (\<lambda>c. c \<noteq> CHR '','') s)"
  using comma_not_space by (induction s) auto

lemma strip_dropWhile: "strip (dropWhile isspace s) = strip s"
  by (simp add: strip_def)

lemma re_split_dropWhile:
  "re_split (dropWhile isspace s) = map (dropWhile isspace) (str_split s)"
proof (induction s rule: str_split.induct)
  case (1 s)
  show ?case
  proof (cases "dropWhile (\<lambda>c. c \<noteq> CHR '','') s")
    case Nil
    have "re_split (dropWhile isspace s) = [dropWhile isspace s]"
      by (subst re_split.simps) (simp only: dropWhile_comma_space Nil list.case)
    moreover have "str_split s = [s]"
      by (subst str_split.simps) (simp only: Nil list.case)
    ultimately show ?thesis by simp
  next
    case (Cons c rest)
    have "re_split (dropWhile isspace s)
        = dropWhile isspace (takeWhile (\<lambda>c. c \<noteq> CHR '','') s) # re_split (dropWhile isspace rest)"
      by (subst re_split.simps)
        (simp only: dropWhile_comma_space takeWhile_comma_space Cons list.case)
    moreover have "str_split s = takeWhile (\<lambda>c. c \<noteq> CHR '','') s # str_split rest"
      by (subst str_split.simps) (simp only: Cons list.case)
    moreover have "re_split (dropWhile isspace rest) = map (dropWhile isspace) (str_split rest)"
      using Cons by (rule "1.IH")
    ultimately show ?thesis by simp
  qed
qed

lemma strip_re_split: "map strip (re_split s) = map strip (str_split s)"
proof (cases "dropWhile (\<lambda>c. c \<noteq> CHR '','') s")
  case Nil
  have "re_split s = [s]" by (subst re_split.simps) (simp only: Nil list.case)
  moreover have "str_split s = [s]" by (subst str_split.simps) (simp only: Nil list.case)
  ultimately show ?thesis by simp
next
  case (Cons c rest)
  have "re_split s = takeWhile (\<lambda>c. c \<noteq> CHR '','') s # re_split (dropWhile isspace rest)"
    by (subst re_split.simps) (simp only: Cons list.case)
  moreover have "str_split s = takeWhile (\<lambda>c. c \<noteq> CHR '','') s # str_split rest"
    by (subst str_split.simps) (simp only: Cons list.case)
  ultimately show ?thesis
    by (simp add: re_split_dropWhile strip_dropWhile comp_def)
qed

lemma concat_nonempty_filter:
  "[f s. s \<leftarrow> xs, f s \<noteq> []] = filter (\<lambda>t. t \<noteq> []) (map f xs)"
  by (induction xs) auto

lemma skill_tokens_eq: "skill_tokens x = filter (\<lambda>t. t \<noteq> []) (map strip (str_split x))"
  by (simp add: skill_tokens_def concat_nonempty_filter strip_re_split)

lemma dropWhile_hd: "dropWhile P xs \<noteq> [] \<Longrightarrow> \<not> P (hd (dropWhile P xs))"
  by (metis hd_dropWhile)

lemma last_dropWhile_ne: "dropWhile P xs \<noteq> [] \<Longrightarrow> last (dropWhile P xs) = last xs"
  by (metis last_appendR takeWhile_dropWhile_id)

lemma strip_trimmed:
  assumes "strip s \<noteq> []"
  shows "\<not> isspace (hd (strip s)) \<and> \<not> isspace (last (strip s))"
proof -
  define d where "d = dropWhile isspace s"
  define e where "e = dropWhile isspace (rev d)"
  have st: "strip s = rev e" by (simp add: strip_def d_def e_def)
  with assms have ene: "e \<noteq> []" by simp
  then have dne: "d \<noteq> []" by (auto simp: e_def)
  have "hd (strip s) = last e" using ene st by (simp add: hd_rev)
  also have "\<dots> = last (rev d)" using ene unfolding e_def by (rule last_dropWhile_ne)
  also have "\<dots> = hd d" using dne by (simp add: last_rev)
  finally have h: "hd (strip s) = hd d" .
  have "\<not> isspace (hd d)" using dne unfolding d_def by (rule dropWhile_hd)
  moreover have "last (strip s) = hd e" using ene st by (simp add: last_rev)
  moreover have "\<not> isspace (hd e)" using ene unfolding e_def by (rule dropWhile_hd)
  ultimately show ?thesis using h by simp
qed

lemma skill_tokens_nonempty: "[] \<notin> set (skill_tokens x)"
  by (simp add: skill_tokens_eq)

lemma all_skills_nonempty: "[] \<notin> set (all_skills df)"
  by (simp add: all_skills_def skill_tokens_nonempty)

text \<open>
  C5, as amended. The skill count (lines 87-88) splits a cell at its commas, strips each
  piece and drops the pieces that are empty after stripping. The salary-by-skill explode
  (lines 95-97) splits at the commas and strips each piece but keeps the empty pieces,
  one row per piece; its non-empty tokens are those of the skill count, and its
  empty tokens go only when the rows are restricted to the top skills, none of which is
  empty. \<open>"Python, SQL"\<close> gives the two tokens \<open>"Python"\<close> and \<open>"SQL"\<close> in both places.
\<close>

theorem explode_delimited_tokens:
  "skill_tokens x = filter (\<lambda>t. t \<noteq> []) (map strip (str_split x))
   \<and> explode_tokens x = map strip (str_split x)
   \<and> skill_tokens x = filter (\<lambda>t. t \<noteq> []) (explode_tokens x)
   \<and> (\<forall>t\<in>set (explode_tokens x). t = [] \<or> (\<not> isspace (hd t) \<and> \<not> isspace (last t)))
   \<and> [] \<notin> set (all_skills df)
   \<and> (\<forall>(v, t)\<in>set (top_skill_rows (skill_counts df) df). t \<noteq> [])
   \<and> skill_tokens ''Python, SQL'' = [''Python'', ''SQL'']
   \<and> explode_tokens ''Python, SQL'' = [''Python'', ''SQL'']
   \<and> exploded_skills [skilled (Some 100000) ''Python, SQL'']
       = [(100000, ''Python''), (100000, ''SQL'')]"
proof (intro conjI)
  show "skill_tokens x = filter (\<lambda>t. t \<noteq> []) (map strip (str_split x))"
    by (rule skill_tokens_eq)
  show et: "explode_tokens x = map strip (str_split x)"
    by (simp add: explode_tokens_def)
  show "skill_tokens x = filter (\<lambda>t. t \<noteq> []) (explode_tokens x)"
    by (simp add: skill_tokens_eq et)
  show "\<forall>t\<in>set (explode_tokens x). t = [] \<or> (\<not> isspace (hd t) \<and> \<not> isspace (last t))"
    unfolding et using strip_trimmed by auto
  show "[] \<notin> set (all_skills df)" by (rule all_skills_nonempty)
  show "\<forall>(v, t)\<in>set (top_skill_rows (skill_counts df) df). t \<noteq> []"
  proof (clarify)
    fix v assume "(v, []) \<in> set (top_skill_rows (skill_counts df) df)"
    then have "[] \<in> set (top_10_skills (skill_counts df))"
      by (simp add: top_skill_rows_def)
    then have "[] \<in> set (map fst (skill_counts df))"
      unfolding top_10_skills_def by (rule in_set_takeD)
    then obtain c where "([], c) \<in> set (skill_counts df)" by auto
    then have "([], c) \<in> set (sorted_by_count_desc (counter (all_skills df)))"
      unfolding skill_counts_def most_common_def by (rule in_set_takeD)
    then have "([], c) \<in> set (counter (all_skills df))"
      by (simp add: sorted_by_count_desc_def)
    then have "[] \<in> fst ` set (counter (all_skills df))" by force
    then have "[] \<in> set (all_skills df)" using set_counter_keys [of "all_skills df"] by simp
    then show False using all_skills_nonempty by blast
  qed
  show "skill_tokens ''Python, SQL'' = [''Python'', ''SQL'']"
    by (simp add: skill_tokens_def re_split.simps strip_def isspace_def)
  show "explode_tokens ''Python, SQL'' = [''Python'', ''SQL'']"
    by (simp add: explode_tokens_def str_split.simps strip_def isspace_def)
  show "exploded_skills [skilled (Some 100000) ''Python, SQL'']
       = [(100000, ''Python''), (100000, ''SQL'')]"
    by (simp add: exploded_skills_def skilled_def posting_def explode_tokens_def
        str_split.simps strip_def isspace_def)
qed

theorem explode_delimited_tokens_witness:
  "explode_tokens ''Python , ,SQL'' = [''Python'', [], ''SQL'']
   \<and> skill_tokens ''Python , ,SQL'' = [''Python'', ''SQL'']
   \<and> top_skill_rows (skill_counts [skilled (Some 100000) ''Python , ,SQL''])
         [skilled (Some 100000) ''Python , ,SQL'']
       = [(100000, ''Python''), (100000, ''SQL'')]"
proof -
  have e: "explode_tokens ''Python , ,SQL'' = [''Python'', [], ''SQL'']"
    by (simp add: explode_tokens_def str_split.simps strip_def isspace_def)
  have t: "skill_tokens ''Python , ,SQL'' = [''Python'', ''SQL'']"
    by (simp add: skill_tokens_def re_split.simps strip_def isspace_def)
  have "skill_counts [skilled (Some 100000) ''Python , ,SQL''] = [(''Python'', 1), (''SQL'', 1)]"
    by (simp add: skill_counts_def all_skills_def t skilled_def posting_def most_common_def
        sorted_by_count_desc_def counter_def)
  then have "top_skill_rows (skill_counts [skilled (Some 100000) ''Python , ,SQL''])
         [skilled (Some 100000) ''Python , ,SQL'']
       = [(100000, ''Python''), (100000, ''SQL'')]"
    by (simp add: top_skill_rows_def top_10_skills_def exploded_skills_def e skilled_def
        posting_def)
  with e t show ?thesis
    using explode_delimited_tokens [of "''Python , ,SQL''" "[skilled (Some 100000) ''Python , ,SQL'']"]
    by simp
qed

text \<open>
  C5 as stated fails for the explode: a cell with nothing between two commas leaves a
  row whose skill is the empty string.
\<close>

theorem exploded_skills_empty_token_counterexample:
  "exploded_skills [skilled (Some 100000) ''Python,,SQL'']
     = [(100000, ''Python''), (100000, []), (100000, ''SQL'')]"
  by (simp add: exploded_skills_def skilled_def posting_def explode_tokens_def
      str_split.simps strip_def isspace_def)

subsection \<open>Group means\<close>

lemma groupby_keys: "map fst (groupby key df) = sort (remdups (dropna (map key df)))"
  by (simp add: groupby_def comp_def)

lemma groupby_mean_keys:
  "map fst (groupby_mean key val df) = sort (remdups (dropna (map key df)))"
  by (simp add: groupby_mean_def groupby_def comp_def)

lemma set_dropna_map: "set (dropna (map key df)) = {k. \<exists>r\<in>set df. key r = Some k}"
proof -
  have "Some k \<in> key ` set df \<longleftrightarrow> (\<exists>r\<in>set df. key r = Some k)" for k
    by (auto simp: image_iff) metis+
  then show ?thesis by (simp add: set_dropna)
qed

lemma groupby_mean_eq:
  "groupby_mean key val df
     = map (\<lambda>k. (k, series_mean (map val (filter (\<lambda>r. key r = Some k) df))))
         (sort (remdups (dropna (map key df))))"
  by (simp add: groupby_mean_def groupby_def comp_def)

lemma groupby_mean_set:
  "set (groupby_mean key val df)
     = (\<lambda>k. (k, series_mean (map val (filter (\<lambda>r. key r = Some k) df)))) ` {k. \<exists>r\<in>set df. key r = Some k}"
  unfolding groupby_mean_eq set_dropna_map [symmetric] by simp

lemma dropna_all_missing:
  "\<forall>r\<in>set g. val r = None \<Longrightarrow> dropna (map val g) = []"
  by (induction g) auto

lemma groupby_mean_lookup:
  "(k, m) \<in> set (groupby_mean key val df)
     \<Longrightarrow> m = series_mean (map val (filter (\<lambda>r. key r = Some k) df))"
  by (auto simp: groupby_mean_set)

lemma dropna_filter_present:
  "dropna (map val (filter (\<lambda>r. val r \<noteq> None) g)) = dropna (map val g)"
  by (induction g) (auto split: option.splits)

lemma series_mean_present:
  "series_mean (map val (filter (\<lambda>r. val r \<noteq> None) g)) = series_mean (map val g)"
  unfolding series_mean_def dropna_filter_present ..

lemma key2_Some: "key2 f g r = Some (a, b) \<longleftrightarrow> f r = Some a \<and> g r = Some b"
  by (auto simp: key2_def split: option.splits)

text \<open>
  C4, as amended. \<open>meanBy\<close> groups the rows by the tuple of their group-column values
  (a row with a missing group value is in no group; the groups are those that occur, in
  the order of their keys) and gives each group the arithmetic mean of its non-missing
  values. A group whose rows have no non-missing value is in the result, with a missing
  mean: it is neither zero-filled nor omitted.
\<close>

theorem mean_by_groups:
  "map fst (groupby_mean key val df) = sort (remdups (dropna (map key df)))
   \<and> distinct (map fst (groupby_mean key val df))
   \<and> set (map fst (groupby_mean key val df)) = {k. \<exists>r\<in>set df. key r = Some k}
   \<and> (\<forall>(k, m)\<in>set (groupby_mean key val df).
        m = (let vs = dropna (map val (filter (\<lambda>r. key r = Some k) df))
             in if vs = [] then None else Some (sum_list vs / real (length vs))))
   \<and> ((\<exists>r\<in>set df. key r = Some k) \<and> (\<forall>r\<in>set df. key r = Some k \<longrightarrow> val r = None)
        \<longrightarrow> (k, None) \<in> set (groupby_mean key val df))
   \<and> (key2 f g r = Some (a, b) \<longleftrightarrow> f r = Some a \<and> g r = Some b)"
proof (intro conjI impI)
  show ks: "map fst (groupby_mean key val df) = sort (remdups (dropna (map key df)))"
    by (rule groupby_mean_keys)
  show "distinct (map fst (groupby_mean key val df))" by (simp add: ks)
  show "set (map fst (groupby_mean key val df)) = {k. \<exists>r\<in>set df. key r = Some k}"
    by (simp add: ks set_dropna_map del: set_map)
  show "\<forall>(k, m)\<in>set (groupby_mean key val df).
        m = (let vs = dropna (map val (filter (\<lambda>r. key r = Some k) df))
             in if vs = [] then None else Some (sum_list vs / real (length vs)))"
    by (auto simp: groupby_mean_set series_mean_def)
  show "key2 f g r = Some (a, b) \<longleftrightarrow> f r = Some a \<and> g r = Some b" by (rule key2_Some)
next
  assume a: "(\<exists>r\<in>set df. key r = Some k) \<and> (\<forall>r\<in>set df. key r = Some k \<longrightarrow> val r = None)"
  then have "dropna (map val (filter (\<lambda>r. key r = Some k) df)) = []"
    by (intro dropna_all_missing) simp
  then have "series_mean (map val (filter (\<lambda>r. key r = Some k) df)) = None"
    by (simp add: series_mean_def)
  with a show "(k, None) \<in> set (groupby_mean key val df)"
    by (force simp: groupby_mean_set)
qed


theorem mean_by_groups_witness:
  "groupby_mean job_title salary_usd
     [posting ''B'' ''SE'' (Some 1), posting ''A'' ''SE'' None, posting ''B'' ''SE'' (Some 4)]
     = [(''A'', None), (''B'', Some (5 / 2))]
   \<and> key2 job_title experience_level (posting ''B'' ''SE'' (Some 1)) = Some (''B'', ''SE'')"
  using mean_by_groups [of job_title salary_usd
      "[posting ''B'' ''SE'' (Some 1), posting ''A'' ''SE'' None, posting ''B'' ''SE'' (Some 4)]"
      "''A''" job_title experience_level "posting ''B'' ''SE'' (Some 1)" "''B''" "''SE''"]
  by (simp add: groupby_mean_eq series_mean_def posting_def key2_def)

subsection \<open>Missing salaries\<close>

lemma filtered_df_present:
  "filtered_df t (filter (\<lambda>r. salary_usd r \<noteq> None) df) = filtered_df t df"
  unfolding filtered_df_def filter_filter
  by (rule filter_cong) (auto simp: ge_nan_def split: option.splits)

lemma dropna_map_Some: "dropna (map Some ys) = ys"
  by (induction ys) auto

lemma describe_dropna: "describe (map Some (dropna xs)) = describe xs"
  by (simp add: describe_def series_mean_def series_std_def series_min_def series_max_def
      quantile_def dropna_map_Some)

lemma describe_present:
  "describe (map val (filter (\<lambda>r. val r \<noteq> None) df)) = describe (map val df)"
proof -
  have "describe (map val (filter (\<lambda>r. val r \<noteq> None) df))
      = describe (map Some (dropna (map val (filter (\<lambda>r. val r \<noteq> None) df))))"
    by (simp only: describe_dropna)
  also have "\<dots> = describe (map Some (dropna (map val df)))"
    by (simp only: dropna_filter_present)
  also have "\<dots> = describe (map val df)" by (simp only: describe_dropna)
  finally show ?thesis .
qed

lemma series_max_present:
  "series_max (map val (filter (\<lambda>r. val r \<noteq> None) df)) = series_max (map val df)"
  unfolding series_max_def dropna_filter_present ..

lemma concat_map_filter_keys:
  assumes "\<And>k. k \<in> set ks \<Longrightarrow> \<not> P k \<Longrightarrow> F k = []"
  shows "concat (map F (filter P ks)) = concat (map F ks)"
  using assms by (induction ks) auto

lemma pivot_agged_present:
  fixes key :: "'r \<Rightarrow> 'k::linorder option"
  shows "[(k, m). (k, Some m) \<leftarrow> groupby_mean key val (filter (\<lambda>r. val r \<noteq> None) df)]
       = [(k, m). (k, Some m) \<leftarrow> groupby_mean key val df]"
proof -
  let ?df' = "filter (\<lambda>r. val r \<noteq> None) df"
  let ?ks = "sort (remdups (dropna (map key df)))"
  let ?ks' = "sort (remdups (dropna (map key ?df')))"
  let ?P = "\<lambda>k. \<exists>r\<in>set df. key r = Some k \<and> val r \<noteq> None"
  let ?F = "\<lambda>d k. case series_mean (map val (filter (\<lambda>r. key r = Some k) d)) of
              None \<Rightarrow> [] | Some m \<Rightarrow> [(k, m)]"
  have grp: "filter (\<lambda>r. key r = Some k) ?df' = filter (\<lambda>r. val r \<noteq> None) (filter (\<lambda>r. key r = Some k) df)"
    for k by (simp add: conj_commute)
  have F: "?F ?df' k = ?F df k" for k
    unfolding grp series_mean_present ..
  have "{k. \<exists>r\<in>set ?df'. key r = Some k} = {k. (\<exists>r\<in>set df. key r = Some k) \<and> ?P k}"
    by auto
  then have st: "set ?ks' = set (filter ?P ?ks)"
    by (simp add: set_dropna_map del: set_map)
  have s1: "sorted ?ks'" and d1: "distinct ?ks'" by simp_all
  have s2: "sorted (filter ?P ?ks)" and d2: "distinct (filter ?P ?ks)"
    by (simp_all add: sorted_filter [where f = id, simplified])
  have ks: "?ks' = filter ?P ?ks"
    by (rule sorted_distinct_set_unique [OF s1 d1 s2 d2 st])
  have empty: "?F df k = []" if "\<not> ?P k" for k
  proof -
    from that have "\<forall>r\<in>set (filter (\<lambda>r. key r = Some k) df). val r = None" by auto
    then have "dropna (map val (filter (\<lambda>r. key r = Some k) df)) = []"
      by (rule dropna_all_missing)
    then show ?thesis by (simp add: series_mean_def)
  qed
  have "[(k, m). (k, Some m) \<leftarrow> groupby_mean key val ?df'] = concat (map (?F ?df') ?ks')"
    unfolding groupby_mean_eq by (simp add: comp_def)
  also have "\<dots> = concat (map (?F df) (filter ?P ?ks))" by (simp only: F ks)
  also have "\<dots> = concat (map (?F df) ?ks)" using empty by (intro concat_map_filter_keys) simp
  also have "\<dots> = [(k, m). (k, Some m) \<leftarrow> groupby_mean key val df]"
    unfolding groupby_mean_eq by (simp add: comp_def)
  finally show ?thesis .
qed

lemma pivot_table_mean_present:
  "pivot_table_mean idx col val (filter (\<lambda>r. val r \<noteq> None) df) = pivot_table_mean idx col val df"
  unfolding pivot_table_mean_def pivot_agged_present ..


lemma exploded_skills_present:
  "exploded_skills (filter (\<lambda>r. salary_usd r \<noteq> None) df) = exploded_skills df"
  unfolding exploded_skills_def
  by (rule concat_map_filter_keys) (auto split: option.splits)

lemma threshold_section_present:
  "threshold_section t (filter (\<lambda>r. salary_usd r \<noteq> None) df) = threshold_section t df"
  unfolding threshold_section_def filtered_df_present series_max_present ..

lemma clean_row_salary: "salary_usd (clean_row pd r) = to_numeric pd (raw_salary_usd r)"
  by (simp add: clean_row_def Let_def)

text \<open>
  C1. The clean-up keeps every row; a row whose salary cell does not parse has a missing
  salary and its other cells as they were. A row with a missing salary passes the
  threshold filter for no threshold (a salary of zero would pass the threshold 0). The
  threshold section, every group mean, the pivot table, the salary-by-skill rows and the
  summary statistics are what they would be without the rows whose salary is missing,
  and a missing value adds neither to the sum nor to the count of a mean. All these are
  total functions: no input makes them fail.
\<close>

theorem unparseable_salary_is_missing:
  "length (rows (ingest pd raw)) = length raw
   \<and> (\<forall>i<length raw. to_numeric pd (raw_salary_usd (raw ! i)) = None \<longrightarrow>
         salary_usd (rows (ingest pd raw) ! i) = None
         \<and> job_title (rows (ingest pd raw) ! i) = raw_job_title (raw ! i)
         \<and> company_location (rows (ingest pd raw) ! i) = raw_company_location (raw ! i)
         \<and> experience_level (rows (ingest pd raw) ! i) = raw_experience_level (raw ! i)
         \<and> required_skills (rows (ingest pd raw) ! i) = raw_required_skills (raw ! i))
   \<and> (salary_usd r = None \<longrightarrow> r \<notin> set (filtered_df t df))
   \<and> filtered_df t df = filtered_df t (filter (\<lambda>r. salary_usd r \<noteq> None) df)
   \<and> threshold_section t df = threshold_section t (filter (\<lambda>r. salary_usd r \<noteq> None) df)
   \<and> (\<forall>(k, m)\<in>set (groupby_mean key salary_usd df).
         m = series_mean (map salary_usd
               (filter (\<lambda>r. key r = Some k) (filter (\<lambda>r. salary_usd r \<noteq> None) df))))
   \<and> series_mean (None # xs) = series_mean xs
   \<and> pivot_table_mean idx col salary_usd df
       = pivot_table_mean idx col salary_usd (filter (\<lambda>r. salary_usd r \<noteq> None) df)
   \<and> exploded_skills df = exploded_skills (filter (\<lambda>r. salary_usd r \<noteq> None) df)
   \<and> describe (map salary_usd df)
       = describe (map salary_usd (filter (\<lambda>r. salary_usd r \<noteq> None) df))"
proof (intro conjI allI impI)
  show "length (rows (ingest pd raw)) = length raw" by (simp add: ingest_def)
next
  fix i assume i: "i < length raw" and n: "to_numeric pd (raw_salary_usd (raw ! i)) = None"
  from i have row: "rows (ingest pd raw) ! i = clean_row pd (raw ! i)" by (simp add: ingest_def)
  show "salary_usd (rows (ingest pd raw) ! i) = None" by (simp add: row clean_row_salary n)
  show "job_title (rows (ingest pd raw) ! i) = raw_job_title (raw ! i)"
    by (simp add: row clean_row_def Let_def)
  show "company_location (rows (ingest pd raw) ! i) = raw_company_location (raw ! i)"
    by (simp add: row clean_row_def Let_def)
  show "experience_level (rows (ingest pd raw) ! i) = raw_experience_level (raw ! i)"
    by (simp add: row clean_row_def Let_def)
  show "required_skills (rows (ingest pd raw) ! i) = raw_required_skills (raw ! i)"
    by (simp add: row clean_row_def Let_def)
next
  assume "salary_usd r = None"
  then show "r \<notin> set (filtered_df t df)" by (simp add: filtered_df_mem)
next
  show "filtered_df t df = filtered_df t (filter (\<lambda>r. salary_usd r \<noteq> None) df)"
    by (simp only: filtered_df_present)
  show "threshold_section t df = threshold_section t (filter (\<lambda>r. salary_usd r \<noteq> None) df)"
    by (simp only: threshold_section_present)
  show "\<forall>(k, m)\<in>set (groupby_mean key salary_usd df).
         m = series_mean (map salary_usd
               (filter (\<lambda>r. key r = Some k) (filter (\<lambda>r. salary_usd r \<noteq> None) df)))"
  proof (clarify)
    fix k m assume "(k, m) \<in> set (groupby_mean key salary_usd df)"
    then have "m = series_mean (map salary_usd (filter (\<lambda>r. key r = Some k) df))"
      by (rule groupby_mean_lookup)
    also have "\<dots> = series_mean (map salary_usd
        (filter (\<lambda>r. salary_usd r \<noteq> None) (filter (\<lambda>r. key r = Some k) df)))"
      by (simp only: series_mean_present)
    also have "filter (\<lambda>r. salary_usd r \<noteq> None) (filter (\<lambda>r. key r = Some k) df)
        = filter (\<lambda>r. key r = Some k) (filter (\<lambda>r. salary_usd r \<noteq> None) df)"
      by (simp add: conj_commute)
    finally show "m = series_mean (map salary_usd
        (filter (\<lambda>r. key r = Some k) (filter (\<lambda>r. salary_usd r \<noteq> None) df)))" .
  qed
  show "series_mean (None # xs) = series_mean xs" by (simp add: series_mean_def)
  show "pivot_table_mean idx col salary_usd df
       = pivot_table_mean idx col salary_usd (filter (\<lambda>r. salary_usd r \<noteq> None) df)"
    by (simp only: pivot_table_mean_present)
  show "exploded_skills df = exploded_skills (filter (\<lambda>r. salary_usd r \<noteq> None) df)"
    by (simp only: exploded_skills_present)
  show "describe (map salary_usd df)
       = describe (map salary_usd (filter (\<lambda>r. salary_usd r \<noteq> None) df))"
    by (simp only: describe_present)
qed

lemma example_salaries:
  "map salary_usd (rows (ingest example_pandas example_raw)) = [None, Some 100000]"
  by (simp add: ingest_def example_raw_def clean_row_salary example_pandas_def raw_posting_def)

lemma example_titles:
  "map job_title (rows (ingest example_pandas example_raw))
     = [Some ''ML Engineer'', Some ''ML Engineer'']"
  by (simp add: ingest_def example_raw_def clean_row_def example_pandas_def raw_posting_def)

theorem unparseable_salary_is_missing_witness:
  "to_numeric example_pandas (raw_salary_usd (example_raw ! 0)) = None
   \<and> length (rows (ingest example_pandas example_raw)) = 2
   \<and> salary_usd (rows (ingest example_pandas example_raw) ! 0) = None
   \<and> filtered_df 0 (rows (ingest example_pandas example_raw))
       = [rows (ingest example_pandas example_raw) ! 1]
   \<and> groupby_mean job_title salary_usd (rows (ingest example_pandas example_raw))
       = [(''ML Engineer'', Some 100000)]
   \<and> s_count (describe (map salary_usd (rows (ingest example_pandas example_raw)))) = 1"
proof -
  let ?df = "rows (ingest example_pandas example_raw)"
  have len: "length ?df = 2" by (simp add: ingest_def example_raw_def)
  have un: "to_numeric example_pandas (raw_salary_usd (example_raw ! 0)) = None"
    by (simp add: example_raw_def example_pandas_def raw_posting_def)
  have s0: "salary_usd (?df ! 0) = None" and s1: "salary_usd (?df ! 1) = Some 100000"
    using example_salaries len by (simp_all add: list_eq_iff_nth_eq)
  have t0: "job_title (?df ! 0) = Some ''ML Engineer''"
    and t1: "job_title (?df ! 1) = Some ''ML Engineer''"
    using example_titles len by (simp_all add: list_eq_iff_nth_eq)
  from len obtain a b where ab: "?df = [a, b]"
    by (cases ?df; simp) (metis length_0_conv length_Suc_conv Suc_1 Suc_inject)
  with s0 s1 t0 t1 have f: "salary_usd a = None" "salary_usd b = Some 100000"
    "job_title a = Some ''ML Engineer''" "job_title b = Some ''ML Engineer''" by simp_all
  have "filtered_df 0 ?df = [?df ! 1]"
    unfolding ab by (simp add: filtered_df_def ge_nan_def f)
  moreover have "groupby_mean job_title salary_usd ?df = [(''ML Engineer'', Some 100000)]"
    unfolding ab by (simp add: groupby_mean_eq f series_mean_def)
  moreover have "s_count (describe (map salary_usd ?df)) = 1"
    by (simp add: example_salaries describe_def)
  ultimately show ?thesis
    using len un s0
      unparseable_salary_is_missing [where pd = example_pandas and raw = example_raw
        and df = ?df and key = job_title]
    by simp
qed

subsection \<open>Summary statistics\<close>



















subsection \<open>Derived fields and the run\<close>

lemma pivot_agged_empty_iff:
  fixes key :: "'r \<Rightarrow> 'k::linorder option"
  shows "[(k, m). (k, Some m) \<leftarrow> groupby_mean key val df] = []
     \<longleftrightarrow> (\<forall>r\<in>set df. key r = None \<or> val r = None)"
proof -
  let ?ks = "sort (remdups (dropna (map key df)))"
  let ?F = "\<lambda>k. case series_mean (map val (filter (\<lambda>r. key r = Some k) df)) of
              None \<Rightarrow> [] | Some m \<Rightarrow> [(k, m)]"
  have ks: "set ?ks = {k. \<exists>r\<in>set df. key r = Some k}"
    using set_dropna_map [of key df] by simp
  have F: "?F k = [] \<longleftrightarrow> (\<forall>r\<in>set df. key r = Some k \<longrightarrow> val r = None)" for k
  proof -
    have "dropna (map val (filter (\<lambda>r. key r = Some k) df)) = []
        \<longleftrightarrow> (\<forall>r\<in>set df. key r = Some k \<longrightarrow> val r = None)"
      by (induction df) (auto split: option.splits)
    then show ?thesis by (simp add: series_mean_def Let_def split: option.splits)
  qed
  have "[(k, m). (k, Some m) \<leftarrow> groupby_mean key val df] = concat (map ?F ?ks)"
    unfolding groupby_mean_eq by (simp add: comp_def)
  also have "\<dots> = [] \<longleftrightarrow> (\<forall>k\<in>set ?ks. ?F k = [])" by simp
  also have "\<dots> \<longleftrightarrow> (\<forall>r\<in>set df. key r = None \<or> val r = None)"
  proof
    assume a: "\<forall>k\<in>set ?ks. ?F k = []"
    show "\<forall>r\<in>set df. key r = None \<or> val r = None"
    proof
      fix r assume r: "r \<in> set df"
      show "key r = None \<or> val r = None"
      proof (cases "key r")
        case None
        then show ?thesis by simp
      next
        case (Some k)
        from r Some have "\<exists>r\<in>set df. key r = Some k" by (rule bexI [rotated])
        then have "k \<in> set ?ks" unfolding ks by simp
        with a have "?F k = []" by (rule bspec)
        then have "\<forall>r\<in>set df. key r = Some k \<longrightarrow> val r = None" unfolding F .
        with r Some have "val r = None" by simp
        then show ?thesis by simp
      qed
    qed
  next
    assume a: "\<forall>r\<in>set df. key r = None \<or> val r = None"
    show "\<forall>k\<in>set ?ks. ?F k = []"
    proof
      fix k
      have "\<forall>r\<in>set df. key r = Some k \<longrightarrow> val r = None" using a by auto
      then show "?F k = []" by (simp only: F)
    qed
  qed
  finally show ?thesis .
qed

lemma sort_eq_Nil_iff: "sort xs = [] \<longleftrightarrow> xs = []"
  by (metis length_0_conv length_sort)

lemma heatmap_df_empty_iff:
  "pv_values (heatmap_df td) = []
     \<longleftrightarrow> (\<forall>r\<in>set td. job_title r = None \<or> company_location r = None \<or> salary_usd r = None)"
proof -
  define agged where
    "agged = [(k, m). (k, Some m) \<leftarrow> groupby_mean (key2 job_title company_location) salary_usd td]"
  have "pv_values (heatmap_df td)
      = map (map (map_option round2))
          (map (\<lambda>i. map (\<lambda>c. map_of agged (i, c)) (sort (remdups (map (snd \<circ> fst) agged))))
            (sort (remdups (map (fst \<circ> fst) agged))))"
    unfolding agged_def heatmap_df_def pivot_round2_def pivot_table_mean_def Let_def by simp
  then have "pv_values (heatmap_df td) = [] \<longleftrightarrow> sort (remdups (map (fst \<circ> fst) agged)) = []"
    by simp
  also have "\<dots> \<longleftrightarrow> agged = []" by (simp add: sort_eq_Nil_iff)
  also have "\<dots> \<longleftrightarrow> (\<forall>r\<in>set td. key2 job_title company_location r = None \<or> salary_usd r = None)"
    unfolding agged_def by (rule pivot_agged_empty_iff)
  also have "\<dots> \<longleftrightarrow> (\<forall>r\<in>set td. job_title r = None \<or> company_location r = None \<or> salary_usd r = None)"
    by (auto simp: key2_def split: option.splits)
  finally show ?thesis .
qed




lemma deadline_span_error: "deadline_span r = Inl e \<Longrightarrow> e = OverflowError"
  by (auto simp: deadline_span_def sub_datetime_def Let_def split: option.splits if_splits)

lemma sub_datetime_columns_Inr_iff:
  "sub_datetime_columns rs = Inr ds \<longleftrightarrow> map deadline_span rs = map Inr ds"
proof (induction rs arbitrary: ds)
  case Nil
  then show ?case by auto
next
  case (Cons r rs)
  show ?case
  proof (cases "deadline_span r")
    case (Inl e)
    then show ?thesis by (cases ds) auto
  next
    case (Inr d)
    show ?thesis
    proof (cases "sub_datetime_columns rs")
      case (Inl e)
      with Cons.IH have "\<And>ds'. map deadline_span rs \<noteq> map Inr ds'" by simp
      with Inl Inr show ?thesis by (cases ds) auto
    next
      case tail: (Inr ds')
      with Cons.IH [of ds'] have "map deadline_span rs = map Inr ds'" by simp
      with tail Inr show ?thesis by (cases ds) (auto simp: Cons.IH [symmetric])
    qed
  qed
qed

lemma sub_datetime_columns_overflow:
  "\<exists>r\<in>set rs. deadline_span r = Inl OverflowError \<Longrightarrow> sub_datetime_columns rs = Inl OverflowError"
proof (induction rs)
  case Nil
  then show ?case by simp
next
  case (Cons r rs)
  show ?case
  proof (cases "deadline_span r")
    case (Inl e)
    then have "e = OverflowError" by (rule deadline_span_error)
    with Inl show ?thesis by simp
  next
    case (Inr d)
    with Cons.prems have "\<exists>r\<in>set rs. deadline_span r = Inl OverflowError" by auto
    then have "sub_datetime_columns rs = Inl OverflowError" by (rule Cons.IH)
    with Inr show ?thesis by simp
  qed
qed

lemma sub_datetime_columns_total:
  "\<forall>r\<in>set rs. deadline_span r \<noteq> Inl OverflowError \<Longrightarrow> \<exists>ds. map deadline_span rs = map Inr ds"
proof (induction rs)
  case Nil
  then show ?case by simp
next
  case (Cons r rs)
  then obtain ds where ds: "map deadline_span rs = map Inr ds" by auto
  from Cons.prems have "deadline_span r \<noteq> Inl OverflowError" by simp
  then obtain d where "deadline_span r = Inr d"
    by (cases "deadline_span r") (auto dest: deadline_span_error)
  with ds have "map deadline_span (r # rs) = map Inr (d # ds)" by simp
  then show ?case by blast
qed

lemma assign_deadline_days_Inr:
  "map deadline_span (rows df) = map Inr ds
     \<Longrightarrow> assign_deadline_days df = Inr (df \<lparr> deadline_days := Some (map dt_days ds) \<rparr>)"
  by (simp add: assign_deadline_days_def sub_datetime_columns_Inr_iff [symmetric])

lemma assign_deadline_days_Inl:
  "\<exists>r\<in>set (rows df). deadline_span r = Inl OverflowError
     \<Longrightarrow> assign_deadline_days df = Inl OverflowError"
  by (simp add: assign_deadline_days_def sub_datetime_columns_overflow)

lemma assign_deadline_days_Inl_iff:
  "assign_deadline_days df = Inl e
     \<longleftrightarrow> e = OverflowError \<and> (\<exists>r\<in>set (rows df). deadline_span r = Inl OverflowError)"
proof
  assume a: "assign_deadline_days df = Inl e"
  have ex: "\<exists>r\<in>set (rows df). deadline_span r = Inl OverflowError"
  proof (rule ccontr)
    assume "\<not> ?thesis"
    then obtain ds where "map deadline_span (rows df) = map Inr ds"
      using sub_datetime_columns_total [of "rows df"] by auto
    then have "assign_deadline_days df = Inr (df \<lparr> deadline_days := Some (map dt_days ds) \<rparr>)"
      by (rule assign_deadline_days_Inr)
    with a show False by simp
  qed
  then have "assign_deadline_days df = Inl OverflowError" by (rule assign_deadline_days_Inl)
  with a ex show "e = OverflowError \<and> (\<exists>r\<in>set (rows df). deadline_span r = Inl OverflowError)"
    by simp
next
  assume "e = OverflowError \<and> (\<exists>r\<in>set (rows df). deadline_span r = Inl OverflowError)"
  then show "assign_deadline_days df = Inl e" by (simp add: assign_deadline_days_Inl)
qed



lemma dashboard_complete:
  assumes "R = rows (ingest pd raw)"
    and "TL = top_values srt 10 (map company_location R)"
    and "H = heatmap_df (top_data (top_values srt 10 (map job_title R)) TL R)"
    and "pv_values H \<noteq> []"
    and "map deadline_span R = map Inr ds"
  shows "dashboard pd srt raw t
     = \<lparr> raised = None,
         left_df = (ingest pd raw) \<lparr> deadline_days := Some (map dt_days ds) \<rparr>,
         shown = [Threshold (threshold_section t R), Heatmap H, Time_series (time_series R),
           Skill_counts (skill_counts R), Skill_salary (skill_salary (skill_counts R) R),
           Monthly (monthly R), Exp_country (exp_country TL R),
           Deadline_histogram (dropna (map dt_days ds)), Stats (stats R)] \<rparr>"
proof -
  from assms(1,5)
  have "assign_deadline_days (ingest pd raw)
      = Inr ((ingest pd raw) \<lparr> deadline_days := Some (map dt_days ds) \<rparr>)"
    by (intro assign_deadline_days_Inr) simp
  with assms(1-4) show ?thesis
    by (simp add: dashboard_def Let_def create_annotated_heatmap_def fig_deadline_def)
qed


lemma civil_example: "civil 1710460800000000000 = (2024, 3)"
  by code_simp



lemma listings_rows:
  "rows (ingest example_pandas example_listings)
     = [\<lparr> job_title = Some ''ML Engineer'', company_name = Some ''TechCorp'',
          company_location = Some ''Germany'', experience_level = Some ''SE'',
          industry = Some ''Technology'', required_skills = Some ''Python, SQL'',
          salary_usd = Some 100000, posting_date = Some 1710460800000000000,
          application_deadline = Some 1713139200000000000,
          posting_year = Some 2024, posting_month = Some 3 \<rparr>,
        \<lparr> job_title = Some ''ML Engineer'', company_name = Some ''TechCorp'',
          company_location = Some ''Germany'', experience_level = Some ''SE'',
          industry = Some ''Technology'', required_skills = Some ''Python'',
          salary_usd = Some 120000, posting_date = Some 1710460800000000000,
          application_deadline = Some 1713139200000000000,
          posting_year = Some 2024, posting_month = Some 3 \<rparr>,
        \<lparr> job_title = Some ''ML Engineer'', company_name = Some ''TechCorp'',
          company_location = Some ''Germany'', experience_level = Some ''EN'',
          industry = Some ''Technology'', required_skills = Some ''SQL'',
          salary_usd = None, posting_date = Some 1710460800000000000,
          application_deadline = Some 1713139200000000000,
          posting_year = Some 2024, posting_month = Some 3 \<rparr>,
        \<lparr> job_title = Some ''Data Scientist'', company_name = Some ''TechCorp'',
          company_location = Some ''Germany'', experience_level = Some ''EN'',
          industry = Some ''Technology'', required_skills = Some ''Python'',
          salary_usd = Some 90000, posting_date = None,
          application_deadline = Some 1713139200000000000,
          posting_year = None, posting_month = None \<rparr>]"
  by (simp add: ingest_def example_listings_def clean_row_def example_pandas_def raw_listing_def
      civil_example)

lemma listings_top_titles:
  "top_values sorted_by_count_desc 10 (map job_title (rows (ingest example_pandas example_listings)))
     = [''ML Engineer'', ''Data Scientist'']"
  by (simp add: listings_rows top_values_def value_counts_def counter_def sorted_by_count_desc_def)

lemma listings_top_locations:
  "top_values sorted_by_count_desc 10
     (map company_location (rows (ingest example_pandas example_listings))) = [''Germany'']"
  by (simp add: listings_rows top_values_def value_counts_def counter_def sorted_by_count_desc_def)

lemma listings_top_data:
  "top_data [''ML Engineer'', ''Data Scientist''] [''Germany'']
     (rows (ingest example_pandas example_listings))
   = rows (ingest example_pandas example_listings)"
  by (simp add: listings_rows top_data_def isin_def)

lemma listings_heatmap:
  "pv_values (heatmap_df (top_data [''ML Engineer'', ''Data Scientist''] [''Germany'']
     (rows (ingest example_pandas example_listings)))) \<noteq> []"
proof -
  have "pv_values (heatmap_df (rows (ingest example_pandas example_listings))) \<noteq> []"
    unfolding heatmap_df_empty_iff by (simp add: listings_rows)
  then show ?thesis by (simp add: listings_top_data)
qed

lemma listings_spans:
  "map deadline_span (rows (ingest example_pandas example_listings))
     = map Inr [Some 2678400000000000, Some 2678400000000000, Some 2678400000000000, None]"
  by (simp add: listings_rows deadline_span_def sub_datetime_def)

lemma listings_time_series:
  "time_series (rows (ingest example_pandas example_listings))
     = [((2024, ''EN''), None), ((2024, ''SE''), Some 110000)]"
  by (simp add: listings_rows time_series_def groupby_mean_eq key2_def series_mean_def)

lemma listings_run:
  "raised (dashboard example_pandas sorted_by_count_desc example_listings t) = None
   \<and> left_df (dashboard example_pandas sorted_by_count_desc example_listings t)
       = (ingest example_pandas example_listings)
           \<lparr> deadline_days := Some [Some 31, Some 31, Some 31, None] \<rparr>
   \<and> shown (dashboard example_pandas sorted_by_count_desc example_listings t) ! 2
       = Time_series [((2024, ''EN''), None), ((2024, ''SE''), Some 110000)]"
proof -
  note run = dashboard_complete [OF refl refl refl _ listings_spans,
      of sorted_by_count_desc t, unfolded listings_top_titles listings_top_locations,
      OF listings_heatmap]
  show ?thesis unfolding run by (simp add: dt_days_def listings_time_series)
qed



















text \<open>
  C4 as stated fails: on a data set on which the script runs to its end, the group of
  2024 and level EN, whose only row has no salary, is in the time series that is shown,
  with a missing mean.
\<close>

theorem time_series_all_missing_group_counterexample:
  "raised (dashboard example_pandas sorted_by_count_desc example_listings 50000) = None
   \<and> shown (dashboard example_pandas sorted_by_count_desc example_listings 50000) ! 2
       = Time_series [((2024, ''EN''), None), ((2024, ''SE''), Some 110000)]"
  using listings_run by blast

end
